theory Spec2Isabelle
  imports Complex_Main
begin

section \<open>EXIF GPS extraction of pytune\_helpers\_images (exif\_gps.py)\<close>

text \<open>
  The functions of \<^verbatim>\<open>exif_gps.py\<close> that parse GPS tags are embedded as HOL
  functions over a datatype of Python values. Conventions:
  \<^item> a Python \<^verbatim>\<open>str\<close> is a \<open>string\<close> of ASCII characters; characters above 127 are
    carried along as ordinary (non-blank, caseless) characters;
  \<^item> a Python \<^verbatim>\<open>dict\<close> is the list of its (key, value) pairs in insertion order;
  \<^item> a Python \<^verbatim>\<open>float\<close> is its exact value (a rational), or one of \<open>inf\<close>,
    \<open>-inf\<close>, \<open>nan\<close>; rounding to 53 bits, overflow and the sign of zero are not
    represented;
  \<^item> a raised exception is the left summand of the result.
\<close>

subsection \<open>Python values and exceptions\<close>

datatype pyfloat = Fin rat | PInf | NInf | NaN

datatype pyval =
    PNone
  | PBool bool
  | PInt int
  | PFloat pyfloat
  | PStr string
  | PList "pyval list"
  | PTuple "pyval list"
  | PDict "(pyval \<times> pyval) list"

datatype py_error =
    ValueError string
  | ZeroDivisionError
  | TypeError
  | AttributeError

subsection \<open>Characters and strings\<close>

definition is_space :: "char \<Rightarrow> bool" where
  \<comment> \<open>\<^verbatim>\<open>str.isspace\<close> and the regular expression class \<^verbatim>\<open>\s\<close> on ASCII\<close>
  "is_space c \<longleftrightarrow> (let n = (of_char c :: nat) in (9 \<le> n \<and> n \<le> 13) \<or> (28 \<le> n \<and> n \<le> 32))"

definition is_c_space :: "char \<Rightarrow> bool" where
  \<comment> \<open>the blanks that \<^verbatim>\<open>float()\<close> skips around an ASCII string\<close>
  "is_c_space c \<longleftrightarrow> (let n = (of_char c :: nat) in (9 \<le> n \<and> n \<le> 13) \<or> n = 32)"

definition is_digit :: "char \<Rightarrow> bool" where
  "is_digit c \<longleftrightarrow> (let n = (of_char c :: nat) in 48 \<le> n \<and> n \<le> 57)"

definition lower_char :: "char \<Rightarrow> char" where
  "lower_char c = (let n = (of_char c :: nat) in if 65 \<le> n \<and> n \<le> 90 then char_of (n + 32) else c)"

definition upper_char :: "char \<Rightarrow> char" where
  "upper_char c = (let n = (of_char c :: nat) in if 97 \<le> n \<and> n \<le> 122 then char_of (n - 32) else c)"

definition py_lower :: "string \<Rightarrow> string" where
  "py_lower s = map lower_char s"

definition py_upper :: "string \<Rightarrow> string" where
  "py_upper s = map upper_char s"

definition strip_where :: "(char \<Rightarrow> bool) \<Rightarrow> string \<Rightarrow> string" where
  "strip_where P s = rev (dropWhile P (rev (dropWhile P s)))"

definition py_strip :: "string \<Rightarrow> string" where
  \<comment> \<open>\<^verbatim>\<open>s.strip()\<close>\<close>
  "py_strip s = strip_where is_space s"

definition py_strip_chars :: "string \<Rightarrow> string \<Rightarrow> string" where
  \<comment> \<open>\<^verbatim>\<open>s.strip(chars)\<close>\<close>
  "py_strip_chars chars s = strip_where (\<lambda>c. c \<in> set chars) s"

definition is_sep :: "char \<Rightarrow> bool" where
  \<comment> \<open>the character class \<^verbatim>\<open>[,\s]\<close>\<close>
  "is_sep c \<longleftrightarrow> c = CHR '','' \<or> is_space c"

text \<open>
  \<^verbatim>\<open>re.split(r"[,\s]+", s)\<close>: the pieces between the maximal runs of separators, the
  first and the last piece possibly empty. \<open>cur\<close> is the piece being read.
\<close>

function re_split_from :: "string \<Rightarrow> string \<Rightarrow> string list" where
  "re_split_from cur [] = [cur]"
| "re_split_from cur (c # cs) =
     (if is_sep c then cur # re_split_from [] (dropWhile is_sep cs)
      else re_split_from (cur @ [c]) cs)"
  by pat_completeness auto
termination
  by (relation "measure (\<lambda>(cur, s). length s)")
     (auto simp: length_dropWhile_le less_Suc_eq_le)

definition re_split :: "string \<Rightarrow> string list" where
  "re_split s = re_split_from [] s"

subsection \<open>Printing values: \<^verbatim>\<open>repr\<close> and \<^verbatim>\<open>str\<close>\<close>

definition digit_char :: "nat \<Rightarrow> char" where
  "digit_char n = char_of (48 + n)"

fun nat_digits :: "nat \<Rightarrow> string" where
  "nat_digits n = (if n < 10 then [digit_char n] else nat_digits (n div 10) @ [digit_char (n mod 10)])"

declare nat_digits.simps [simp del]

definition int_repr :: "int \<Rightarrow> string" where
  "int_repr n = (if n < 0 then CHR ''-'' # nat_digits (nat (- n)) else nat_digits (nat n))"

definition hex_char :: "nat \<Rightarrow> char" where
  "hex_char n = (if n < 10 then char_of (48 + n) else char_of (87 + n))"

definition escape_char :: "char \<Rightarrow> char \<Rightarrow> string" where
  "escape_char q c =
     (let n = (of_char c :: nat) in
      if c = CHR 0x5C then [CHR 0x5C, CHR 0x5C]
      else if c = q then [CHR 0x5C, q]
      else if c = CHR 0x0A then [CHR 0x5C, CHR ''n'']
      else if c = CHR 0x0D then [CHR 0x5C, CHR ''r'']
      else if c = CHR 0x09 then [CHR 0x5C, CHR ''t'']
      else if n < 32 \<or> n = 127 then [CHR 0x5C, CHR ''x'', hex_char (n div 16), hex_char (n mod 16)]
      else [c])"

definition str_repr :: "string \<Rightarrow> string" where
  "str_repr s =
     (let q = (if CHR 0x27 \<in> set s \<and> CHR 0x22 \<notin> set s then CHR 0x22 else CHR 0x27)
      in q # concat (map (escape_char q) s) @ [q])"

definition pow10 :: "int \<Rightarrow> rat" where
  "pow10 k = (if 0 \<le> k then 10 ^ nat k else 1 / 10 ^ nat (- k))"

fun scale_steps :: "nat \<Rightarrow> rat \<Rightarrow> nat" where
  "scale_steps 0 q = 0"
| "scale_steps (Suc fuel) q = (if 1 \<le> q then 0 else Suc (scale_steps fuel (q * 10)))"

definition decimal_exponent :: "rat \<Rightarrow> int" where
  \<comment> \<open>for \<open>0 < q\<close>, the \<open>e\<close> with \<open>10 ^ e \<le> q < 10 ^ (e + 1)\<close>\<close>
  "decimal_exponent q =
     (if 1 \<le> q then int (length (nat_digits (nat \<lfloor>q\<rfloor>))) - 1
      else - int (scale_steps (nat (snd (quotient_of q))) q))"

definition significant_digits :: "rat \<Rightarrow> string \<times> int" where
  \<comment> \<open>up to 17 significant digits of \<open>0 < q\<close> and the position of the decimal point\<close>
  "significant_digits q =
     (let e = decimal_exponent q;
          n = nat (round (q * pow10 (16 - e)));
          (n', e') = (if 10 ^ 17 \<le> n then (n div 10, e + 1) else (n, e));
          ds = rev (dropWhile (\<lambda>c. c = CHR ''0'') (rev (nat_digits n')))
      in (ds, e' + 1))"

definition float_repr :: "pyfloat \<Rightarrow> string" where
  "float_repr f =
     (case f of
        NaN \<Rightarrow> ''nan''
      | PInf \<Rightarrow> ''inf''
      | NInf \<Rightarrow> ''-inf''
      | Fin q \<Rightarrow>
          if q = 0 then ''0.0''
          else
            let (ds, decpt) = significant_digits \<bar>q\<bar>;
                sign = (if q < 0 then ''-'' else '''');
                k = int (length ds)
            in if - 4 < decpt \<and> decpt \<le> 16 then
                 sign @
                 (if decpt \<le> 0 then ''0.'' @ replicate (nat (- decpt)) CHR ''0'' @ ds
                  else if k \<le> decpt then ds @ replicate (nat (decpt - k)) CHR ''0'' @ ''.0''
                  else take (nat decpt) ds @ ''.'' @ drop (nat decpt) ds)
               else
                 let x = decpt - 1;
                     xs = nat_digits (nat \<bar>x\<bar>)
                 in sign @ take 1 ds @ (if 1 < k then ''.'' @ drop 1 ds else '''') @
                    ''e'' @ (if x < 0 then ''-'' else ''+'') @
                    (if length xs < 2 then CHR ''0'' # xs else xs))"

fun join_comma :: "string list \<Rightarrow> string" where
  "join_comma [] = []"
| "join_comma [x] = x"
| "join_comma (x # y # ys) = x @ '', '' @ join_comma (y # ys)"

primrec py_repr :: "pyval \<Rightarrow> string" where
  "py_repr PNone = ''None''"
| "py_repr (PBool b) = (if b then ''True'' else ''False'')"
| "py_repr (PInt n) = int_repr n"
| "py_repr (PFloat f) = float_repr f"
| "py_repr (PStr s) = str_repr s"
| "py_repr (PList xs) = ''['' @ join_comma (map py_repr xs) @ '']''"
| "py_repr (PTuple xs) =
     (case map py_repr xs of [x] \<Rightarrow> ''('' @ x @ '',)'' | rs \<Rightarrow> ''('' @ join_comma rs @ '')'')"
| "py_repr (PDict kvs) =
     ''{'' @ join_comma (map (\<lambda>p. fst p @ '': '' @ snd p) (map (map_prod py_repr py_repr) kvs)) @ ''}''"

definition py_str :: "pyval \<Rightarrow> string" where
  \<comment> \<open>\<^verbatim>\<open>str(v)\<close>: a string is itself, every other value prints as its \<^verbatim>\<open>repr\<close>\<close>
  "py_str v = (case v of PStr s \<Rightarrow> s | _ \<Rightarrow> py_repr v)"

subsection \<open>Floating-point values\<close>

fun fneg :: "pyfloat \<Rightarrow> pyfloat" where
  "fneg (Fin q) = Fin (- q)"
| "fneg PInf = NInf"
| "fneg NInf = PInf"
| "fneg NaN = NaN"

fun fadd :: "pyfloat \<Rightarrow> pyfloat \<Rightarrow> pyfloat" where
  "fadd (Fin a) (Fin b) = Fin (a + b)"
| "fadd NaN y = NaN"
| "fadd x NaN = NaN"
| "fadd PInf NInf = NaN"
| "fadd NInf PInf = NaN"
| "fadd PInf y = PInf"
| "fadd NInf y = NInf"
| "fadd x PInf = PInf"
| "fadd x NInf = NInf"

fun fdiv :: "pyfloat \<Rightarrow> pyfloat \<Rightarrow> pyfloat" where
  \<comment> \<open>the quotient by a divisor other than zero\<close>
  "fdiv (Fin a) (Fin b) = Fin (a / b)"
| "fdiv NaN y = NaN"
| "fdiv x NaN = NaN"
| "fdiv (Fin a) y = Fin 0"
| "fdiv PInf (Fin b) = (if b < 0 then NInf else PInf)"
| "fdiv NInf (Fin b) = (if b < 0 then PInf else NInf)"
| "fdiv x y = NaN"

definition py_truediv :: "pyfloat \<Rightarrow> pyfloat \<Rightarrow> py_error + pyfloat" where
  \<comment> \<open>\<^verbatim>\<open>x / y\<close> on floats\<close>
  "py_truediv x y = (if y = Fin 0 then Inl ZeroDivisionError else Inr (fdiv x y))"

definition nonneg :: "pyfloat \<Rightarrow> bool" where
  \<comment> \<open>\<^verbatim>\<open>x >= 0\<close>\<close>
  "nonneg f = (case f of Fin q \<Rightarrow> 0 \<le> q | PInf \<Rightarrow> True | NInf \<Rightarrow> False | NaN \<Rightarrow> False)"

text \<open>
  \<^verbatim>\<open>float(s)\<close> on a string. Underscores are accepted between two digits only; blanks
  around the number are skipped; then comes an optional sign and either \<^verbatim>\<open>inf\<close>,
  \<^verbatim>\<open>infinity\<close>, \<^verbatim>\<open>nan\<close> (in any case) or a decimal number with an optional
  fraction and an optional exponent.
\<close>

fun strip_underscores :: "char \<Rightarrow> string \<Rightarrow> string option" where
  "strip_underscores prev [] = (if prev = CHR ''_'' then None else Some [])"
| "strip_underscores prev (c # cs) =
     (if c = CHR ''_'' then (if is_digit prev then strip_underscores c cs else None)
      else if prev = CHR ''_'' \<and> \<not> is_digit c then None
      else map_option ((#) c) (strip_underscores c cs))"

definition digits_val :: "string \<Rightarrow> nat" where
  "digits_val ds = foldl (\<lambda>a c. 10 * a + (of_char c - 48)) 0 ds"

definition split_sign :: "string \<Rightarrow> bool \<times> string" where
  "split_sign s =
     (case s of
        [] \<Rightarrow> (False, s)
      | c # r \<Rightarrow> if c = CHR ''-'' then (True, r) else if c = CHR ''+'' then (False, r) else (False, s))"

definition parse_exponent :: "string \<Rightarrow> int option" where
  "parse_exponent r =
     (case r of
        [] \<Rightarrow> Some 0
      | c # r1 \<Rightarrow>
          if c = CHR ''e'' \<or> c = CHR ''E'' then
            (let (neg, r2) = split_sign r1
             in if r2 \<noteq> [] \<and> list_all is_digit r2
                then Some (if neg then - int (digits_val r2) else int (digits_val r2))
                else None)
          else None)"

definition parse_decimal :: "string \<Rightarrow> rat option" where
  "parse_decimal r =
     (let ip = takeWhile is_digit r;
          r1 = dropWhile is_digit r;
          (fp, r2) = (case r1 of
                        [] \<Rightarrow> ([], r1)
                      | c # r' \<Rightarrow> if c = CHR ''.'' then (takeWhile is_digit r', dropWhile is_digit r')
                                 else ([], r1))
      in if ip = [] \<and> fp = [] then None
         else case parse_exponent r2 of
                None \<Rightarrow> None
              | Some e \<Rightarrow> Some (of_nat (digits_val (ip @ fp)) * pow10 (e - int (length fp))))"

definition float_of_str :: "string \<Rightarrow> py_error + pyfloat" where
  "float_of_str s =
     (let bad = Inl (ValueError (''could not convert string to float: '' @ str_repr s)) in
      case strip_underscores (CHR 0x00) s of
        None \<Rightarrow> bad
      | Some s1 \<Rightarrow>
          let (neg, r) = split_sign (strip_where is_c_space s1);
              l = py_lower r
          in if l = ''inf'' \<or> l = ''infinity'' then Inr (if neg then NInf else PInf)
             else if l = ''nan'' then Inr NaN
             else case parse_decimal r of
                    None \<Rightarrow> bad
                  | Some q \<Rightarrow> Inr (Fin (if neg then - q else q)))"

fun py_float :: "pyval \<Rightarrow> py_error + pyfloat" where
  \<comment> \<open>\<^verbatim>\<open>float(v)\<close>\<close>
  "py_float (PFloat f) = Inr f"
| "py_float (PInt n) = Inr (Fin (of_int n))"
| "py_float (PBool b) = Inr (Fin (if b then 1 else 0))"
| "py_float (PStr s) = float_of_str s"
| "py_float v = Inl TypeError"

subsection \<open>Truth values and dictionaries\<close>

fun py_truthy :: "pyval \<Rightarrow> bool" where
  \<comment> \<open>\<^verbatim>\<open>bool(v)\<close>\<close>
  "py_truthy PNone = False"
| "py_truthy (PBool b) = b"
| "py_truthy (PInt n) = (n \<noteq> 0)"
| "py_truthy (PFloat f) = (f \<noteq> Fin 0)"
| "py_truthy (PStr s) = (s \<noteq> [])"
| "py_truthy (PList xs) = (xs \<noteq> [])"
| "py_truthy (PTuple xs) = (xs \<noteq> [])"
| "py_truthy (PDict kvs) = (kvs \<noteq> [])"

definition dict_get :: "(pyval \<times> pyval) list \<Rightarrow> pyval \<Rightarrow> pyval" where
  \<comment> \<open>\<^verbatim>\<open>d.get(k)\<close>\<close>
  "dict_get d k = (case map_of d k of None \<Rightarrow> PNone | Some v \<Rightarrow> v)"

definition py_or :: "pyval \<Rightarrow> pyval \<Rightarrow> pyval" where
  \<comment> \<open>\<^verbatim>\<open>a or b\<close>\<close>
  "py_or a b = (if py_truthy a then a else b)"

subsection \<open>The module-level GPS helpers\<close>

definition normalize_str :: "string \<Rightarrow> string" where
  \<comment> \<open>\<^verbatim>\<open>re.sub(r"\s+", "", s).lower()\<close>\<close>
  "normalize_str s = py_lower (filter (\<lambda>c. \<not> is_space c) s)"

fun normalize_key :: "pyval \<Rightarrow> py_error + string" where
  \<comment> \<open>\<^verbatim>\<open>re.sub\<close> raises TypeError on anything but a string\<close>
  "normalize_key (PStr s) = Inr (normalize_str s)"
| "normalize_key v = Inl TypeError"

text \<open>
  The dictionary comprehension \<^verbatim>\<open>{ _normalize_key(k): k for k in tags.keys() }\<close>: the
  keys are visited in order, a later key replaces an earlier one of the same normal form,
  and the first key that is not a string stops the construction. The normalising function
  is an argument, since the module and the extractor each define their own.
\<close>

fun norm_table ::
  "(pyval \<Rightarrow> py_error + string) \<Rightarrow> pyval list \<Rightarrow> (string \<rightharpoonup> pyval) \<Rightarrow> py_error + (string \<rightharpoonup> pyval)" where
  "norm_table nk [] tbl = Inr tbl"
| "norm_table nk (k # ks) tbl =
     (case nk k of
        Inl e \<Rightarrow> Inl e
      | Inr n \<Rightarrow> norm_table nk ks (tbl(n \<mapsto> k)))"

fun first_candidate ::
  "(pyval \<Rightarrow> py_error + string) \<Rightarrow> (string \<rightharpoonup> pyval) \<Rightarrow> string list \<Rightarrow> py_error + pyval" where
  \<comment> \<open>the loop over the candidates; \<open>PNone\<close> when it ends without a match\<close>
  "first_candidate nk tbl [] = Inr PNone"
| "first_candidate nk tbl (cand # cands) =
     (case nk (PStr cand) of
        Inl e \<Rightarrow> Inl e
      | Inr key_norm \<Rightarrow>
          (case tbl key_norm of
             Some k \<Rightarrow> Inr k
           | None \<Rightarrow> first_candidate nk tbl cands))"

definition find_key :: "pyval \<Rightarrow> string list \<Rightarrow> py_error + pyval" where
  "find_key tags candidates =
     (if \<not> py_truthy tags then Inr PNone
      else case tags of
             PDict d \<Rightarrow>
               (case norm_table normalize_key (map fst d) Map.empty of
                  Inl e \<Rightarrow> Inl e
                | Inr tbl \<Rightarrow> first_candidate normalize_key tbl candidates)
           | _ \<Rightarrow> Inl AttributeError)"

definition parse_rational :: "string \<Rightarrow> py_error + pyfloat" where
  "parse_rational token =
     (let token = py_strip token in
      if CHR ''/'' \<in> set token then
        (let a = takeWhile (\<lambda>c. c \<noteq> CHR ''/'') token;
             b = tl (dropWhile (\<lambda>c. c \<noteq> CHR ''/'') token)
         in case float_of_str a of
              Inl e \<Rightarrow> Inl e
            | Inr x \<Rightarrow>
                (case float_of_str b of
                   Inl e \<Rightarrow> Inl e
                 | Inr y \<Rightarrow> py_truediv x y))
      else float_of_str token)"

definition dms_parts :: "pyval \<Rightarrow> string list" where
  \<comment> \<open>the list \<^verbatim>\<open>parts\<close> of \<^verbatim>\<open>_parse_dms\<close>\<close>
  "dms_parts v =
     (case v of
        PList xs \<Rightarrow> map py_str xs
      | PTuple xs \<Rightarrow> map py_str xs
      | _ \<Rightarrow> filter (\<lambda>p. p \<noteq> []) (re_split (py_strip_chars ''[]()'' (py_strip (py_str v)))))"

definition parse_three ::
  "(string \<Rightarrow> py_error + pyfloat) \<Rightarrow> string list \<Rightarrow> py_error + (pyfloat \<times> pyfloat \<times> pyfloat)" where
  \<comment> \<open>\<^verbatim>\<open>parts[0]\<close>, \<^verbatim>\<open>parts[1]\<close>, \<^verbatim>\<open>parts[2]\<close> parsed in this order, for three parts or more\<close>
  "parse_three pr parts =
     (case pr (parts ! 0) of
        Inl e \<Rightarrow> Inl e
      | Inr deg \<Rightarrow>
          (case pr (parts ! 1) of
             Inl e \<Rightarrow> Inl e
           | Inr minutes \<Rightarrow>
               (case pr (parts ! 2) of
                  Inl e \<Rightarrow> Inl e
                | Inr seconds \<Rightarrow> Inr (deg, minutes, seconds))))"

definition parse_dms :: "pyval \<Rightarrow> py_error + (pyfloat \<times> pyfloat \<times> pyfloat)" where
  "parse_dms v =
     (let parts = dms_parts v in
      if length parts < 3 then Inl (ValueError (''DMS format invalid: '' @ py_repr v))
      else parse_three parse_rational parts)"

definition is_south_or_west :: "pyval \<Rightarrow> bool" where
  \<comment> \<open>\<^verbatim>\<open>str(ref).upper().strip() in ("S", "W")\<close>\<close>
  "is_south_or_west ref \<longleftrightarrow> py_strip (py_upper (py_str ref)) \<in> set [''S'', ''W'']"

definition to_decimal :: "pyfloat \<times> pyfloat \<times> pyfloat \<Rightarrow> pyval \<Rightarrow> pyfloat" where
  \<comment> \<open>\<^verbatim>\<open>d + m/60.0 + s/3600.0\<close>, negated for a southern or western reference\<close>
  "to_decimal dms ref =
     (case dms of (d, m, s) \<Rightarrow>
        let dec = fadd (fadd d (fdiv m (Fin 60))) (fdiv s (Fin 3600))
        in if is_south_or_west ref then fneg dec else dec)"

definition dms_to_decimal :: "pyval \<Rightarrow> pyval \<Rightarrow> py_error + pyfloat" where
  "dms_to_decimal dms_val ref =
     (case parse_dms dms_val of
        Inl e \<Rightarrow> Inl e
      | Inr dms \<Rightarrow> Inr (to_decimal dms ref))"

subsection \<open>The helpers redefined inside \<^verbatim>\<open>extract_gps_from_exifread\<close>\<close>

fun normalize_key_inline :: "pyval \<Rightarrow> py_error + string" where
  "normalize_key_inline (PStr s) = Inr (py_lower (filter (\<lambda>c. \<not> is_space c) s))"
| "normalize_key_inline v = Inl TypeError"

definition find_key_inline :: "pyval \<Rightarrow> string list \<Rightarrow> py_error + pyval" where
  \<comment> \<open>no test of \<^verbatim>\<open>not d\<close> here: \<^verbatim>\<open>d.keys()\<close> is called at once\<close>
  "find_key_inline d cands =
     (case d of
        PDict kvs \<Rightarrow>
          (case norm_table normalize_key_inline (map fst kvs) Map.empty of
             Inl e \<Rightarrow> Inl e
           | Inr tbl \<Rightarrow> first_candidate normalize_key_inline tbl cands)
      | _ \<Rightarrow> Inl AttributeError)"

definition parse_rational_inline :: "string \<Rightarrow> py_error + pyfloat" where
  "parse_rational_inline tok =
     (let tok = py_strip tok in
      if CHR ''/'' \<in> set tok then
        (let a = takeWhile (\<lambda>c. c \<noteq> CHR ''/'') tok;
             b = tl (dropWhile (\<lambda>c. c \<noteq> CHR ''/'') tok)
         in case float_of_str a of
              Inl e \<Rightarrow> Inl e
            | Inr x \<Rightarrow>
                (case float_of_str b of
                   Inl e \<Rightarrow> Inl e
                 | Inr y \<Rightarrow> py_truediv x y))
      else float_of_str tok)"

definition parse_dms_inline :: "pyval \<Rightarrow> py_error + (pyfloat \<times> pyfloat \<times> pyfloat)" where
  "parse_dms_inline v =
     (let parts = dms_parts v in
      if length parts < 3 then Inl (ValueError (''DMS invalid: '' @ py_repr v))
      else parse_three parse_rational_inline parts)"

definition dms_to_decimal_inline :: "pyval \<Rightarrow> pyval \<Rightarrow> py_error + pyfloat" where
  "dms_to_decimal_inline v ref =
     (case parse_dms_inline v of
        Inl e \<Rightarrow> Inl e
      | Inr dms \<Rightarrow> Inr (to_decimal dms ref))"

subsection \<open>The extractor\<close>

record coordinate =
  latitude :: pyfloat
  longitude :: pyfloat
  gps_method :: pyval  \<comment> \<open>the entry \<^verbatim>\<open>"method"\<close> of the returned dictionary\<close>

definition from_location :: "pyval \<Rightarrow> coordinate option" where
  \<comment> \<open>step 0: a \<^verbatim>\<open>location\<close> dictionary with decimal coordinates; any exception of the
      \<^verbatim>\<open>try\<close> block is passed over\<close>
  "from_location loc =
     (case loc of
        PDict l \<Rightarrow>
          (let lat = dict_get l (PStr ''latitude'');
               lon = dict_get l (PStr ''longitude'')
           in if lat \<noteq> PNone \<and> lon \<noteq> PNone then
                (case py_float lat of
                   Inl e \<Rightarrow> None
                 | Inr x \<Rightarrow>
                     (case py_float lon of
                        Inl e \<Rightarrow> None
                      | Inr y \<Rightarrow>
                          Some \<lparr>latitude = x, longitude = y, gps_method =
                                  py_or (dict_get l (PStr ''method'')) (PStr ''LOCATION'')\<rparr>))
              else None)
      | _ \<Rightarrow> None)"

definition tag_source :: "pyval \<Rightarrow> pyval" where
  \<comment> \<open>step 1: the dictionary under \<^verbatim>\<open>exif\<close> if there is one, else the input itself\<close>
  "tag_source data =
     (case data of
        PDict d \<Rightarrow> (case dict_get d (PStr ''exif'') of PDict e \<Rightarrow> PDict e | _ \<Rightarrow> data)
      | _ \<Rightarrow> data)"

definition from_tags :: "pyval \<Rightarrow> py_error + coordinate option" where
  \<comment> \<open>steps 2 and 3: the four keys, then the conversion inside \<^verbatim>\<open>try\<close>\<close>
  "from_tags tags =
     (case tags of
        PDict t \<Rightarrow>
          (case find_key_inline tags [''GPS GPSLatitude'', ''GPSLatitude''] of
             Inl e \<Rightarrow> Inl e
           | Inr lat_key \<Rightarrow>
          (case find_key_inline tags [''GPS GPSLatitudeRef'', ''GPSLatitudeRef''] of
             Inl e \<Rightarrow> Inl e
           | Inr lat_ref_key \<Rightarrow>
          (case find_key_inline tags [''GPS GPSLongitude'', ''GPSLongitude''] of
             Inl e \<Rightarrow> Inl e
           | Inr lon_key \<Rightarrow>
          (case find_key_inline tags [''GPS GPSLongitudeRef'', ''GPSLongitudeRef''] of
             Inl e \<Rightarrow> Inl e
           | Inr lon_ref_key \<Rightarrow>
               if \<not> (py_truthy lat_key \<and> py_truthy lat_ref_key \<and> py_truthy lon_key \<and> py_truthy lon_ref_key)
               then Inr None
               else
                 (case dms_to_decimal_inline (dict_get t lat_key) (dict_get t lat_ref_key) of
                    Inl e \<Rightarrow> Inr None
                  | Inr lat \<Rightarrow>
                      (case dms_to_decimal_inline (dict_get t lon_key) (dict_get t lon_ref_key) of
                         Inl e \<Rightarrow> Inr None
                       | Inr lon \<Rightarrow>
                           Inr (Some \<lparr>latitude = lat, longitude = lon, gps_method = PStr ''EXIFREAD''\<rparr>)))))))
      | _ \<Rightarrow> Inr None)"

definition location_entry :: "pyval \<Rightarrow> pyval" where
  \<comment> \<open>\<^verbatim>\<open>data.get("location") if isinstance(data, dict) else None\<close>\<close>
  "location_entry data = (case data of PDict d \<Rightarrow> dict_get d (PStr ''location'') | _ \<Rightarrow> PNone)"

definition extract_gps_from_exifread :: "pyval \<Rightarrow> py_error + coordinate option" where
  "extract_gps_from_exifread data =
     (if \<not> py_truthy data then Inr None
      else
        let loc = location_entry data
        in case from_location loc of
             Some c \<Rightarrow> Inr (Some c)
           | None \<Rightarrow> from_tags (tag_source data))"

subsection \<open>Reverse geocoding from a GPS dictionary\<close>

text \<open>
  \<^verbatim>\<open>reverse_geocode_from_latlon\<close> queries a network service. The wrapper is modelled up
  to that call: it either returns \<^verbatim>\<open>(None, None)\<close> itself, or hands two floats to
  \<^verbatim>\<open>reverse_geocode_from_latlon\<close> and returns what that returns.
\<close>

datatype geocoding = Returns_none_none | Calls_reverse_geocode_from_latlon pyfloat pyfloat

definition call_latlon :: "pyval \<Rightarrow> pyval \<Rightarrow> py_error + geocoding" where
  \<comment> \<open>\<^verbatim>\<open>reverse_geocode_from_latlon(float(a), float(b))\<close>\<close>
  "call_latlon a b =
     (case py_float a of
        Inl e \<Rightarrow> Inl e
      | Inr x \<Rightarrow>
          (case py_float b of
             Inl e \<Rightarrow> Inl e
           | Inr y \<Rightarrow> Inr (Calls_reverse_geocode_from_latlon x y)))"

definition reverse_geocode_from_gps :: "pyval \<Rightarrow> pyval \<Rightarrow> py_error + geocoding" where
  "reverse_geocode_from_gps gps_or_lat lon =
     (case gps_or_lat of
        PDict g \<Rightarrow>
          (let lat = py_or (dict_get g (PStr ''lat'')) (dict_get g (PStr ''latitude''));
               lon_val = py_or (dict_get g (PStr ''lon'')) (dict_get g (PStr ''longitude''))
           in if lat = PNone \<or> lon_val = PNone then Inr Returns_none_none
              else call_latlon lat lon_val)
      | _ \<Rightarrow> if lon = PNone then Inr Returns_none_none else call_latlon gps_or_lat lon)"

subsection \<open>Predicates used in the statements\<close>

fun is_str :: "pyval \<Rightarrow> bool" where
  "is_str (PStr s) = True"
| "is_str v = False"

definition str_keys :: "(pyval \<times> pyval) list \<Rightarrow> bool" where
  \<comment> \<open>every key of the dictionary is a string, as \<^verbatim>\<open>Dict[str, Any]\<close> declares\<close>
  "str_keys d = list_all is_str (map fst d)"


definition nonneg_or_nan :: "pyfloat \<Rightarrow> bool" where
  "nonneg_or_nan x \<longleftrightarrow> nonneg x \<or> x = NaN"

definition is_zero_number :: "pyval \<Rightarrow> bool" where
  \<comment> \<open>the numbers \<^verbatim>\<open>0\<close> and \<^verbatim>\<open>0.0\<close>\<close>
  "is_zero_number v \<longleftrightarrow> v = PInt 0 \<or> v = PFloat (Fin 0)"

fun is_dict :: "pyval \<Rightarrow> bool" where
  "is_dict (PDict d) = True"
| "is_dict v = False"

definition str_keyed_source :: "pyval \<Rightarrow> bool" where
  \<comment> \<open>the tag source, when it is a dictionary, has string keys only\<close>
  "str_keyed_source data \<longleftrightarrow> (case tag_source data of PDict t \<Rightarrow> str_keys t | _ \<Rightarrow> True)"

definition has_key :: "(pyval \<times> pyval) list \<Rightarrow> string list \<Rightarrow> bool" where
  \<comment> \<open>some key has the normal form of one of the spellings\<close>
  "has_key t cands \<longleftrightarrow>
     list_ex (\<lambda>k. list_ex (\<lambda>c. normalize_key k = normalize_key (PStr c)) cands) (map fst t)"

definition gps_key_spellings :: "string list list" where
  \<comment> \<open>the spellings tried for the four required keys\<close>
  "gps_key_spellings =
     [[''GPS GPSLatitude'', ''GPSLatitude''], [''GPS GPSLatitudeRef'', ''GPSLatitudeRef''],
      [''GPS GPSLongitude'', ''GPSLongitude''], [''GPS GPSLongitudeRef'', ''GPSLongitudeRef'']]"

definition lacks_gps_key :: "(pyval \<times> pyval) list \<Rightarrow> bool" where
  "lacks_gps_key t \<longleftrightarrow> list_ex (\<lambda>cands. \<not> has_key t cands) gps_key_spellings"

section \<open>Auxiliary facts\<close>

lemma normalize_key_inline_eq: "normalize_key_inline = normalize_key"
proof
  fix v show "normalize_key_inline v = normalize_key v"
    by (cases v) (simp_all add: normalize_str_def)
qed

lemma norm_table_str:
  "list_all is_str ks \<Longrightarrow>
   \<exists>tbl'. norm_table normalize_key ks tbl = Inr tbl' \<and>
     (\<forall>n k. tbl' n = Some k \<longrightarrow> (k \<in> set ks \<and> normalize_key k = Inr n) \<or> tbl n = Some k) \<and>
     (\<forall>n. tbl' n = None \<longleftrightarrow> tbl n = None \<and> (\<forall>k \<in> set ks. normalize_key k \<noteq> Inr n))"
proof (induction ks arbitrary: tbl)
  case Nil
  then show ?case by simp
next
  case (Cons k ks)
  from Cons.prems obtain s where k: "k = PStr s" by (cases k) auto
  from Cons.prems have "list_all is_str ks" by simp
  from Cons.IH[OF this, of "tbl(normalize_str s \<mapsto> k)"]
  obtain tbl' where t: "norm_table normalize_key ks (tbl(normalize_str s \<mapsto> k)) = Inr tbl'"
    and a: "\<forall>n k'. tbl' n = Some k' \<longrightarrow>
              (k' \<in> set ks \<and> normalize_key k' = Inr n) \<or> (tbl(normalize_str s \<mapsto> k)) n = Some k'"
    and b: "\<forall>n. tbl' n = None \<longleftrightarrow>
              (tbl(normalize_str s \<mapsto> k)) n = None \<and> (\<forall>k \<in> set ks. normalize_key k \<noteq> Inr n)"
    by blast
  have "norm_table normalize_key (k # ks) tbl = Inr tbl'" using t k by simp
  moreover have "\<forall>n k'. tbl' n = Some k' \<longrightarrow>
      (k' \<in> set (k # ks) \<and> normalize_key k' = Inr n) \<or> tbl n = Some k'"
  proof (intro allI impI)
    fix n k' assume h: "tbl' n = Some k'"
    from a h consider "k' \<in> set ks \<and> normalize_key k' = Inr n"
      | "(tbl(normalize_str s \<mapsto> k)) n = Some k'" by blast
    then show "(k' \<in> set (k # ks) \<and> normalize_key k' = Inr n) \<or> tbl n = Some k'"
    proof cases
      case 1 then show ?thesis by simp
    next
      case 2 then show ?thesis using k by (cases "n = normalize_str s") auto
    qed
  qed
  moreover have "\<forall>n. tbl' n = None \<longleftrightarrow>
      tbl n = None \<and> (\<forall>k' \<in> set (k # ks). normalize_key k' \<noteq> Inr n)"
  proof
    fix n
    show "tbl' n = None \<longleftrightarrow> tbl n = None \<and> (\<forall>k' \<in> set (k # ks). normalize_key k' \<noteq> Inr n)"
      using b[rule_format, of n] k by (cases "n = normalize_str s") auto
  qed
  ultimately show ?case by blast
qed

lemma first_candidate_found:
  "first_candidate normalize_key tbl cands =
     Inr (case find (\<lambda>c. tbl (normalize_str c) \<noteq> None) cands of
            None \<Rightarrow> PNone
          | Some c \<Rightarrow> the (tbl (normalize_str c)))"
  by (induction cands) (auto split: option.splits)

lemma find_key_str:
  assumes "str_keys d"
  shows "\<exists>r. find_key (PDict d) cands = Inr r \<and>
           (r \<noteq> PNone \<longleftrightarrow> (\<exists>k \<in> set (map fst d). \<exists>c \<in> set cands. normalize_key k = normalize_key (PStr c))) \<and>
           (r \<noteq> PNone \<longrightarrow> r \<in> set (map fst d))"
proof (cases "d = []")
  case True
  then show ?thesis by (simp add: find_key_def)
next
  case False
  from assms have ks: "list_all is_str (map fst d)" by (simp add: str_keys_def)
  from norm_table_str[OF ks, of Map.empty]
  obtain tbl where t: "norm_table normalize_key (map fst d) Map.empty = Inr tbl"
    and a: "\<forall>n k. tbl n = Some k \<longrightarrow> k \<in> set (map fst d) \<and> normalize_key k = Inr n"
    and b: "\<forall>n. tbl n = None \<longleftrightarrow> (\<forall>k \<in> set (map fst d). normalize_key k \<noteq> Inr n)"
    by auto
  define r where "r = (case find (\<lambda>c. tbl (normalize_str c) \<noteq> None) cands of
            None \<Rightarrow> PNone | Some c \<Rightarrow> the (tbl (normalize_str c)))"
  have fk: "find_key (PDict d) cands = Inr r"
    using False t by (simp add: find_key_def first_candidate_found r_def)
  have strs: "\<And>k. k \<in> set (map fst d) \<Longrightarrow> k \<noteq> PNone"
    using ks by (auto simp: list_all_iff)
  show ?thesis
  proof (cases "find (\<lambda>c. tbl (normalize_str c) \<noteq> None) cands")
    case None
    then have r: "r = PNone" by (simp add: r_def)
    from None have "\<forall>c \<in> set cands. tbl (normalize_str c) = None"
      by (auto simp: find_None_iff)
    with b have "\<not> (\<exists>k \<in> set (map fst d). \<exists>c \<in> set cands. normalize_key k = normalize_key (PStr c))"
      by (metis normalize_key.simps(1))
    with fk r show ?thesis by simp
  next
    case (Some c)
    then have c: "c \<in> set cands" "tbl (normalize_str c) \<noteq> None"
      by (auto simp: find_Some_iff)
    then obtain k where k: "tbl (normalize_str c) = Some k" by auto
    with Some have r: "r = k" by (simp add: r_def)
    from a k have kin: "k \<in> set (map fst d)" "normalize_key k = Inr (normalize_str c)" by auto
    then have "\<exists>k \<in> set (map fst d). \<exists>c \<in> set cands. normalize_key k = normalize_key (PStr c)"
      using c(1) by (metis normalize_key.simps(1))
    with fk r kin strs show ?thesis by auto
  qed
qed

lemma first_candidate_empty: "first_candidate normalize_key Map.empty cands = Inr PNone"
  by (induction cands) simp_all

lemma find_key_inline_dict: "find_key_inline (PDict d) cands = find_key (PDict d) cands"
  unfolding find_key_inline_def find_key_def normalize_key_inline_eq
  by (cases d) (simp_all add: first_candidate_empty)

lemma float_of_str_error:
  "float_of_str s = Inl e \<Longrightarrow> e = ValueError (''could not convert string to float: '' @ str_repr s)"
  by (auto simp: float_of_str_def Let_def split: option.splits prod.splits if_splits)

lemma parse_rational_error:
  "parse_rational t = Inl e \<Longrightarrow>
   e = ZeroDivisionError \<or> (\<exists>s. e = ValueError (''could not convert string to float: '' @ s))"
  by (auto simp: parse_rational_def Let_def py_truediv_def split: if_splits sum.splits
           dest!: float_of_str_error)

lemma parse_three_error:
  "parse_three parse_rational parts = Inl e \<Longrightarrow>
   e = ZeroDivisionError \<or> (\<exists>s. e = ValueError (''could not convert string to float: '' @ s))"
  by (auto simp: parse_three_def split: sum.splits dest: parse_rational_error)

lemma parse_three_take:
  "3 \<le> length parts \<Longrightarrow> parse_three pr (take 3 parts) = parse_three pr parts"
  by (simp add: parse_three_def cong: sum.case_cong)

lemma dms_parts_list_of_strings: "dms_parts (PList (map PStr ts)) = ts"
  by (simp add: dms_parts_def py_str_def comp_def)









lemma strip_underscores_subset:
  "strip_underscores p s = Some s1 \<Longrightarrow> set s1 \<subseteq> set s"
proof (induction s arbitrary: p s1)
  case Nil
  then show ?case by (simp split: if_splits)
next
  case (Cons c cs)
  show ?case
  proof (cases "c = CHR ''_''")
    case True
    with Cons.prems have "strip_underscores c cs = Some s1" by (simp split: if_splits)
    from Cons.IH[OF this] show ?thesis by auto
  next
    case False
    with Cons.prems obtain s2 where s2: "strip_underscores c cs = Some s2" "s1 = c # s2"
      by (auto split: if_splits)
    from Cons.IH[OF s2(1)] s2(2) show ?thesis by auto
  qed
qed

lemma strip_where_subset: "set (strip_where P s) \<subseteq> set s"
proof -
  have "set (dropWhile P (rev (dropWhile P s))) \<subseteq> set (rev (dropWhile P s))"
    by (meson set_dropWhileD subsetI)
  also have "\<dots> \<subseteq> set s" using set_dropWhileD by fastforce
  finally show ?thesis by (simp add: strip_where_def)
qed

lemma split_sign_no_minus: "CHR ''-'' \<notin> set s \<Longrightarrow> fst (split_sign s) = False"
  by (cases s) (auto simp: split_sign_def)

lemma pow10_pos: "0 < pow10 k"
  by (simp add: pow10_def)

lemma parse_decimal_nonneg: "parse_decimal r = Some q \<Longrightarrow> 0 \<le> q"
  by (auto simp: parse_decimal_def Let_def less_imp_le[OF pow10_pos]
           split: prod.splits option.splits if_splits)

lemma float_of_str_no_minus:
  assumes "float_of_str s = Inr x" and "CHR ''-'' \<notin> set s"
  shows "nonneg_or_nan x"
proof -
  from assms(1) obtain s1 where s1: "strip_underscores (CHR 0x00) s = Some s1"
    by (auto simp: float_of_str_def Let_def split: option.splits)
  have "set (strip_where is_c_space s1) \<subseteq> set s"
    using strip_where_subset strip_underscores_subset[OF s1] by blast
  with assms(2) have "CHR ''-'' \<notin> set (strip_where is_c_space s1)" by blast
  then have neg: "fst (split_sign (strip_where is_c_space s1)) = False"
    by (rule split_sign_no_minus)
  obtain r where r: "split_sign (strip_where is_c_space s1) = (False, r)"
    using neg by (cases "split_sign (strip_where is_c_space s1)") auto
  from assms(1) s1 r show ?thesis
    by (auto simp: float_of_str_def Let_def nonneg_or_nan_def nonneg_def
             split: option.splits if_splits dest: parse_decimal_nonneg)
qed

lemma fdiv_nonneg:
  "nonneg_or_nan x \<Longrightarrow> nonneg_or_nan y \<Longrightarrow> y \<noteq> Fin 0 \<Longrightarrow> nonneg_or_nan (fdiv x y)"
  by (cases x; cases y) (auto simp: nonneg_or_nan_def nonneg_def)

lemma parse_rational_no_minus:
  assumes "parse_rational t = Inr x" and "CHR ''-'' \<notin> set t"
  shows "nonneg_or_nan x"
proof -
  let ?t = "py_strip t"
  have sub: "set ?t \<subseteq> set t" unfolding py_strip_def by (rule strip_where_subset)
  show ?thesis
  proof (cases "CHR ''/'' \<in> set ?t")
    case False
    with assms(1) have "float_of_str ?t = Inr x" by (simp add: parse_rational_def Let_def)
    then show ?thesis using sub assms(2) by (auto intro: float_of_str_no_minus)
  next
    case True
    let ?a = "takeWhile (\<lambda>c. c \<noteq> CHR ''/'') ?t"
    let ?b = "tl (dropWhile (\<lambda>c. c \<noteq> CHR ''/'') ?t)"
    from assms(1) True obtain p q where p: "float_of_str ?a = Inr p" and q: "float_of_str ?b = Inr q"
      and d: "py_truediv p q = Inr x"
      by (auto simp: parse_rational_def Let_def split: sum.splits)
    have "set ?a \<subseteq> set ?t" by (meson set_takeWhileD subsetI)
    with sub assms(2) have pa: "nonneg_or_nan p" using float_of_str_no_minus[OF p] by blast
    have "set ?b \<subseteq> set ?t"
    proof
      fix c assume "c \<in> set ?b"
      then have "c \<in> set (dropWhile (\<lambda>c. c \<noteq> CHR ''/'') ?t)"
        by (cases "dropWhile (\<lambda>c. c \<noteq> CHR ''/'') ?t") auto
      then show "c \<in> set ?t" by (rule set_dropWhileD)
    qed
    with sub assms(2) have qa: "nonneg_or_nan q" using float_of_str_no_minus[OF q] by blast
    from d have "q \<noteq> Fin 0" "x = fdiv p q" by (auto simp: py_truediv_def split: if_splits)
    with pa qa show ?thesis by (simp add: fdiv_nonneg)
  qed
qed

lemma parse_three_parts:
  "parse_three pr parts = Inr (d, m, s) \<Longrightarrow>
   pr (parts ! 0) = Inr d \<and> pr (parts ! 1) = Inr m \<and> pr (parts ! 2) = Inr s"
  by (auto simp: parse_three_def split: sum.splits)

lemma zero_number_falsy: "is_zero_number v \<Longrightarrow> \<not> py_truthy v"
  by (auto simp: is_zero_number_def)

lemma parse_rational_inline_eq: "parse_rational_inline = parse_rational"
  by (rule ext) (simp add: parse_rational_inline_def parse_rational_def)

lemma find_key_inline_eq_iff:
  "find_key_inline tags cands = find_key tags cands \<longleftrightarrow> is_dict tags \<or> py_truthy tags"
proof (cases tags)
  case (PDict d)
  then show ?thesis by (simp add: find_key_inline_dict)
qed (auto simp: find_key_inline_def find_key_def)

lemma find_key_inline_str:
  assumes "str_keys t"
  shows "\<exists>r. find_key_inline (PDict t) cands = Inr r \<and> (r \<noteq> PNone \<longleftrightarrow> has_key t cands)"
  using find_key_str[OF assms, of cands]
  by (auto simp: find_key_inline_dict has_key_def list_ex_iff)

lemma from_tags_total:
  assumes "str_keys t"
  shows "\<exists>r. from_tags (PDict t) = Inr r"
proof -
  obtain k1 where k1: "find_key_inline (PDict t) [''GPS GPSLatitude'', ''GPSLatitude''] = Inr k1"
    using find_key_inline_str[OF assms] by blast
  obtain k2 where k2: "find_key_inline (PDict t) [''GPS GPSLatitudeRef'', ''GPSLatitudeRef''] = Inr k2"
    using find_key_inline_str[OF assms] by blast
  obtain k3 where k3: "find_key_inline (PDict t) [''GPS GPSLongitude'', ''GPSLongitude''] = Inr k3"
    using find_key_inline_str[OF assms] by blast
  obtain k4 where k4: "find_key_inline (PDict t) [''GPS GPSLongitudeRef'', ''GPSLongitudeRef''] = Inr k4"
    using find_key_inline_str[OF assms] by blast
  show ?thesis
    by (simp add: from_tags_def k1 k2 k3 k4 split: sum.splits)
qed

lemma from_tags_lacking:
  assumes "str_keys t" and "lacks_gps_key t"
  shows "from_tags (PDict t) = Inr None"
proof -
  obtain k1 where k1: "find_key_inline (PDict t) [''GPS GPSLatitude'', ''GPSLatitude''] = Inr k1"
    "k1 \<noteq> PNone \<longleftrightarrow> has_key t [''GPS GPSLatitude'', ''GPSLatitude'']"
    using find_key_inline_str[OF assms(1)] by blast
  obtain k2 where k2: "find_key_inline (PDict t) [''GPS GPSLatitudeRef'', ''GPSLatitudeRef''] = Inr k2"
    "k2 \<noteq> PNone \<longleftrightarrow> has_key t [''GPS GPSLatitudeRef'', ''GPSLatitudeRef'']"
    using find_key_inline_str[OF assms(1)] by blast
  obtain k3 where k3: "find_key_inline (PDict t) [''GPS GPSLongitude'', ''GPSLongitude''] = Inr k3"
    "k3 \<noteq> PNone \<longleftrightarrow> has_key t [''GPS GPSLongitude'', ''GPSLongitude'']"
    using find_key_inline_str[OF assms(1)] by blast
  obtain k4 where k4: "find_key_inline (PDict t) [''GPS GPSLongitudeRef'', ''GPSLongitudeRef''] = Inr k4"
    "k4 \<noteq> PNone \<longleftrightarrow> has_key t [''GPS GPSLongitudeRef'', ''GPSLongitudeRef'']"
    using find_key_inline_str[OF assms(1)] by blast
  from assms(2) have "k1 = PNone \<or> k2 = PNone \<or> k3 = PNone \<or> k4 = PNone"
    using k1(2) k2(2) k3(2) k4(2) by (auto simp: lacks_gps_key_def gps_key_spellings_def)
  then have "\<not> (py_truthy k1 \<and> py_truthy k2 \<and> py_truthy k3 \<and> py_truthy k4)" by auto
  then show ?thesis
    by (simp add: from_tags_def k1(1) k2(1) k3(1) k4(1))
qed

lemma from_tags_non_dict: "\<not> is_dict tags \<Longrightarrow> from_tags tags = Inr None"
  by (cases tags) (simp_all add: from_tags_def)

section \<open>Properties\<close>

subsection \<open>The scenario of a flat tag map\<close>


subsection \<open>Key resolution\<close>



subsection \<open>The number of components of a DMS value\<close>

text \<open>
  Claim C4. \<^verbatim>\<open>_parse_dms\<close> raises the ValueError that names the raw value exactly when
  splitting the input gives fewer than three parts; with three parts or more the result
  is the one of the first three parts alone, the further parts being ignored.
\<close>

theorem parse_dms_three_parts:
  "(parse_dms v = Inl (ValueError (''DMS format invalid: '' @ py_repr v)) \<longleftrightarrow> length (dms_parts v) < 3) \<and>
   (3 \<le> length (dms_parts v) \<longrightarrow>
      parse_dms v = parse_dms (PList (map PStr (take 3 (dms_parts v)))))"
proof (intro conjI impI)
  show "parse_dms v = Inl (ValueError (''DMS format invalid: '' @ py_repr v)) \<longleftrightarrow> length (dms_parts v) < 3"
  proof
    assume a: "parse_dms v = Inl (ValueError (''DMS format invalid: '' @ py_repr v))"
    show "length (dms_parts v) < 3"
    proof (rule ccontr)
      assume "\<not> length (dms_parts v) < 3"
      with a have "parse_three parse_rational (dms_parts v) =
          Inl (ValueError (''DMS format invalid: '' @ py_repr v))"
        by (simp add: parse_dms_def)
      from parse_three_error[OF this] show False by simp
    qed
  next
    assume "length (dms_parts v) < 3"
    then show "parse_dms v = Inl (ValueError (''DMS format invalid: '' @ py_repr v))"
      by (simp add: parse_dms_def)
  qed
next
  assume h: "3 \<le> length (dms_parts v)"
  then show "parse_dms v = parse_dms (PList (map PStr (take 3 (dms_parts v))))"
    by (simp add: parse_dms_def dms_parts_list_of_strings parse_three_take)
qed

theorem parse_dms_three_parts_witness:
  "length (dms_parts (PStr ''48, 51'')) < 3 \<and>
   parse_dms (PStr ''48, 51'') = Inl (ValueError (''DMS format invalid: '' @ py_repr (PStr ''48, 51''))) \<and>
   3 \<le> length (dms_parts (PStr ''48, 51, 0, 99'')) \<and>
   parse_dms (PStr ''48, 51, 0, 99'') = parse_dms (PList [PStr ''48'', PStr ''51'', PStr ''0''])"
proof -
  have a: "dms_parts (PStr ''48, 51'') = [''48'', ''51'']" by code_simp
  have b: "dms_parts (PStr ''48, 51, 0, 99'') = [''48'', ''51'', ''0'', ''99'']" by code_simp
  from parse_dms_three_parts[of "PStr ''48, 51''"] parse_dms_three_parts[of "PStr ''48, 51, 0, 99''"]
  show ?thesis by (simp add: a b)
qed

subsection \<open>Hemisphere references\<close>



subsection \<open>Rational tokens\<close>



subsection \<open>The sign of the components\<close>

text \<open>
  Claim C8, as amended. The parser has no check of the sign: a component is non-negative
  (or \<open>nan\<close>) whenever the part it is parsed from has no minus sign. For every value the
  parser accepts, if none of the first three parts contains a minus sign, then each of
  degrees, minutes and seconds is non-negative or \<open>nan\<close>.
\<close>

theorem parse_dms_nonneg_without_minus:
  assumes "parse_dms v = Inr (d, m, s)"
    and "\<forall>t \<in> set (take 3 (dms_parts v)). CHR ''-'' \<notin> set t"
  shows "nonneg_or_nan d \<and> nonneg_or_nan m \<and> nonneg_or_nan s"
proof -
  from assms(1) have len: "3 \<le> length (dms_parts v)"
    and p3: "parse_three parse_rational (dms_parts v) = Inr (d, m, s)"
    by (auto simp: parse_dms_def Let_def split: if_splits)
  from parse_three_parts[OF p3]
  have d: "parse_rational (dms_parts v ! 0) = Inr d"
    and m: "parse_rational (dms_parts v ! 1) = Inr m"
    and s: "parse_rational (dms_parts v ! 2) = Inr s" by auto
  have "\<And>i. i < 3 \<Longrightarrow> dms_parts v ! i \<in> set (take 3 (dms_parts v))"
    using len by (metis length_take min.absorb2 nth_mem nth_take)
  with assms(2) have "\<And>i. i < 3 \<Longrightarrow> CHR ''-'' \<notin> set (dms_parts v ! i)" by blast
  then have "CHR ''-'' \<notin> set (dms_parts v ! 0)" "CHR ''-'' \<notin> set (dms_parts v ! 1)"
    "CHR ''-'' \<notin> set (dms_parts v ! 2)" by simp_all
  with d m s show ?thesis by (blast intro: parse_rational_no_minus)
qed

theorem parse_dms_nonneg_without_minus_witness:
  "parse_dms (PStr ''48, 51, 179/100'') = Inr (Fin 48, Fin 51, Fin (179 / 100)) \<and>
   nonneg_or_nan (Fin 48) \<and> nonneg_or_nan (Fin 51) \<and> nonneg_or_nan (Fin (179 / 100))"
proof -
  have p: "parse_dms (PStr ''48, 51, 179/100'') = Inr (Fin 48, Fin 51, Fin (179 / 100))"
    by code_simp
  have q: "dms_parts (PStr ''48, 51, 179/100'') = [''48'', ''51'', ''179/100'']" by code_simp
  have h: "\<forall>t \<in> set (take 3 (dms_parts (PStr ''48, 51, 179/100''))). CHR ''-'' \<notin> set t"
    unfolding q by simp
  from parse_dms_nonneg_without_minus[OF p h] p show ?thesis by simp
qed

text \<open>
  Claim C8 as stated (every component of every returned triple is non-negative) fails:
  \<^verbatim>\<open>"-48, 51, 0"\<close> is accepted and parses to \<open>-48\<close> degrees.
\<close>

theorem parse_dms_nonneg_counterexample:
  "\<not> (\<forall>v d m s. parse_dms v = Inr (d, m, s) \<longrightarrow> nonneg d \<and> nonneg m \<and> nonneg s)"
proof
  assume a: "\<forall>v d m s. parse_dms v = Inr (d, m, s) \<longrightarrow> nonneg d \<and> nonneg m \<and> nonneg s"
  have "parse_dms (PStr ''-48, 51, 0'') = Inr (Fin (- 48), Fin 51, Fin 0)" by code_simp
  with a have "nonneg (Fin (- 48))" by blast
  then show False by (simp add: nonneg_def)
qed

subsection \<open>A coordinate of zero degrees in \<^verbatim>\<open>reverse_geocode_from_gps\<close>\<close>

text \<open>
  Claim C10, as amended. When \<^verbatim>\<open>reverse_geocode_from_gps\<close> is called with a
  dictionary in which \<^verbatim>\<open>lat\<close> maps to the number 0 and \<^verbatim>\<open>latitude\<close> is absent or
  \<^verbatim>\<open>None\<close> (or \<^verbatim>\<open>lon\<close> maps to 0 and \<^verbatim>\<open>longitude\<close> is absent or \<^verbatim>\<open>None\<close>), it
  returns \<^verbatim>\<open>(None, None)\<close> and does not call the geocoder: the coordinate 0 is taken for
  an absent one.
\<close>

theorem reverse_geocode_zero_is_absent:
  assumes "(is_zero_number (dict_get g (PStr ''lat'')) \<and> dict_get g (PStr ''latitude'') = PNone) \<or>
           (is_zero_number (dict_get g (PStr ''lon'')) \<and> dict_get g (PStr ''longitude'') = PNone)"
  shows "reverse_geocode_from_gps (PDict g) lon = Inr Returns_none_none"
  using assms
  by (auto simp: reverse_geocode_from_gps_def Let_def py_or_def dest: zero_number_falsy)

theorem reverse_geocode_zero_is_absent_witness:
  "is_zero_number (dict_get [(PStr ''lat'', PInt 0), (PStr ''lon'', PInt 5)] (PStr ''lat'')) \<and>
   dict_get [(PStr ''lat'', PInt 0), (PStr ''lon'', PInt 5)] (PStr ''latitude'') = PNone \<and>
   reverse_geocode_from_gps (PDict [(PStr ''lat'', PInt 0), (PStr ''lon'', PInt 5)]) PNone
     = Inr Returns_none_none"
proof -
  have a: "is_zero_number (dict_get [(PStr ''lat'', PInt 0), (PStr ''lon'', PInt 5)] (PStr ''lat''))"
    by (simp add: dict_get_def is_zero_number_def)
  have b: "dict_get [(PStr ''lat'', PInt 0), (PStr ''lon'', PInt 5)] (PStr ''latitude'') = PNone"
    by (simp add: dict_get_def)
  from a b have "(is_zero_number (dict_get [(PStr ''lat'', PInt 0), (PStr ''lon'', PInt 5)] (PStr ''lat'')) \<and>
      dict_get [(PStr ''lat'', PInt 0), (PStr ''lon'', PInt 5)] (PStr ''latitude'') = PNone) \<or>
     (is_zero_number (dict_get [(PStr ''lat'', PInt 0), (PStr ''lon'', PInt 5)] (PStr ''lon'')) \<and>
      dict_get [(PStr ''lat'', PInt 0), (PStr ''lon'', PInt 5)] (PStr ''longitude'') = PNone)"
    by (intro disjI1 conjI)
  from reverse_geocode_zero_is_absent[OF this, of PNone] a b show ?thesis by (intro conjI)
qed

text \<open>
  Claim C10 as stated also covers a \<^verbatim>\<open>latitude\<close> entry that is present and falsy. There
  it fails: with \<^verbatim>\<open>{"lat": 0, "latitude": 0, "lon": 1}\<close> the expression
  \<^verbatim>\<open>0 or 0\<close> is \<^verbatim>\<open>0\<close>, which is not \<^verbatim>\<open>None\<close>, and the geocoder is called with
  \<open>(0.0, 1.0)\<close>.
\<close>

theorem reverse_geocode_zero_counterexample:
  "\<not> (\<forall>g lon. is_zero_number (dict_get g (PStr ''lat'')) \<and>
                \<not> py_truthy (dict_get g (PStr ''latitude'')) \<longrightarrow>
                reverse_geocode_from_gps (PDict g) lon = Inr Returns_none_none)"
proof
  let ?g = "[(PStr ''lat'', PInt 0), (PStr ''latitude'', PInt 0), (PStr ''lon'', PInt 1)]"
  assume a: "\<forall>g lon. is_zero_number (dict_get g (PStr ''lat'')) \<and>
                \<not> py_truthy (dict_get g (PStr ''latitude'')) \<longrightarrow>
                reverse_geocode_from_gps (PDict g) lon = Inr Returns_none_none"
  have z: "is_zero_number (dict_get ?g (PStr ''lat''))"
    by (simp add: dict_get_def is_zero_number_def)
  have f: "\<not> py_truthy (dict_get ?g (PStr ''latitude''))"
    by (simp add: dict_get_def)
  have r: "reverse_geocode_from_gps (PDict ?g) PNone = Inr (Calls_reverse_geocode_from_latlon (Fin 0) (Fin 1))"
    by code_simp
  from a z f have "reverse_geocode_from_gps (PDict ?g) PNone = Inr Returns_none_none" by blast
  with r show False by simp
qed

subsection \<open>A location that is already decimal\<close>

text \<open>
  Claim C3, as amended. When the input has a \<^verbatim>\<open>location\<close> dictionary whose
  \<^verbatim>\<open>latitude\<close> and \<^verbatim>\<open>longitude\<close> are not \<^verbatim>\<open>None\<close> and convert to float, the
  extractor returns the two converted values, with the \<^verbatim>\<open>method\<close> entry of the
  location when that entry is present and truthy, and \<^verbatim>\<open>LOCATION\<close> otherwise.
\<close>

theorem extract_from_location:
  assumes "dict_get d (PStr ''location'') = PDict l"
    and "dict_get l (PStr ''latitude'') \<noteq> PNone"
    and "dict_get l (PStr ''longitude'') \<noteq> PNone"
    and "py_float (dict_get l (PStr ''latitude'')) = Inr x"
    and "py_float (dict_get l (PStr ''longitude'')) = Inr y"
  shows "extract_gps_from_exifread (PDict d) =
           Inr (Some \<lparr>latitude = x, longitude = y,
                      gps_method = (if py_truthy (dict_get l (PStr ''method''))
                                    then dict_get l (PStr ''method'') else PStr ''LOCATION'')\<rparr>)"
proof -
  from assms(1) have "d \<noteq> []" by (auto simp: dict_get_def)
  then have t: "py_truthy (PDict d)" by simp
  have f: "from_location (PDict l) =
      Some \<lparr>latitude = x, longitude = y,
            gps_method = (if py_truthy (dict_get l (PStr ''method''))
                          then dict_get l (PStr ''method'') else PStr ''LOCATION'')\<rparr>"
    using assms(2-5) by (simp add: from_location_def Let_def py_or_def)
  show ?thesis
    using t f assms(1) by (simp add: extract_gps_from_exifread_def location_entry_def Let_def)
qed

theorem extract_from_location_witness:
  "extract_gps_from_exifread
     (PDict [(PStr ''location'',
              PDict [(PStr ''latitude'', PStr ''10''), (PStr ''longitude'', PStr ''20'')])])
   = Inr (Some \<lparr>latitude = Fin 10, longitude = Fin 20, gps_method = PStr ''LOCATION''\<rparr>)"
proof -
  let ?l = "[(PStr ''latitude'', PStr ''10''), (PStr ''longitude'', PStr ''20'')]"
  have 1: "dict_get [(PStr ''location'', PDict ?l)] (PStr ''location'') = PDict ?l"
    by (simp add: dict_get_def)
  have 2: "dict_get ?l (PStr ''latitude'') \<noteq> PNone" by (simp add: dict_get_def)
  have 3: "dict_get ?l (PStr ''longitude'') \<noteq> PNone" by (simp add: dict_get_def)
  have 4: "py_float (dict_get ?l (PStr ''latitude'')) = Inr (Fin 10)" by code_simp
  have 5: "py_float (dict_get ?l (PStr ''longitude'')) = Inr (Fin 20)" by code_simp
  have 6: "\<not> py_truthy (dict_get ?l (PStr ''method''))" by (simp add: dict_get_def)
  from extract_from_location[OF 1 2 3 4 5] 6 show ?thesis by simp
qed

text \<open>
  Claim C3 as stated takes the method from the \<^verbatim>\<open>method\<close> entry whenever it is present.
  That fails for an entry that is present and falsy: with \<^verbatim>\<open>"method": ""\<close> the
  expression \<^verbatim>\<open>loc.get("method") or "LOCATION"\<close> gives \<^verbatim>\<open>LOCATION\<close>.
\<close>

theorem extract_from_location_counterexample:
  "\<not> (\<forall>d l x y m.
        dict_get d (PStr ''location'') = PDict l \<and>
        dict_get l (PStr ''latitude'') \<noteq> PNone \<and>
        dict_get l (PStr ''longitude'') \<noteq> PNone \<and>
        py_float (dict_get l (PStr ''latitude'')) = Inr x \<and>
        py_float (dict_get l (PStr ''longitude'')) = Inr y \<and>
        map_of l (PStr ''method'') = Some m \<longrightarrow>
        extract_gps_from_exifread (PDict d) =
          Inr (Some \<lparr>latitude = x, longitude = y, gps_method = m\<rparr>))"
proof
  let ?l = "[(PStr ''latitude'', PStr ''10''), (PStr ''longitude'', PStr ''20''), (PStr ''method'', PStr '''')]"
  let ?d = "[(PStr ''location'', PDict ?l)]"
  assume a: "\<forall>d l x y m.
        dict_get d (PStr ''location'') = PDict l \<and>
        dict_get l (PStr ''latitude'') \<noteq> PNone \<and>
        dict_get l (PStr ''longitude'') \<noteq> PNone \<and>
        py_float (dict_get l (PStr ''latitude'')) = Inr x \<and>
        py_float (dict_get l (PStr ''longitude'')) = Inr y \<and>
        map_of l (PStr ''method'') = Some m \<longrightarrow>
        extract_gps_from_exifread (PDict d) =
          Inr (Some \<lparr>latitude = x, longitude = y, gps_method = m\<rparr>)"
  have 1: "dict_get ?d (PStr ''location'') = PDict ?l" by (simp add: dict_get_def)
  have 2: "dict_get ?l (PStr ''latitude'') \<noteq> PNone" by (simp add: dict_get_def)
  have 3: "dict_get ?l (PStr ''longitude'') \<noteq> PNone" by (simp add: dict_get_def)
  have 4: "py_float (dict_get ?l (PStr ''latitude'')) = Inr (Fin 10)" by code_simp
  have 5: "py_float (dict_get ?l (PStr ''longitude'')) = Inr (Fin 20)" by code_simp
  have 6: "map_of ?l (PStr ''method'') = Some (PStr '''')" by simp
  have r: "extract_gps_from_exifread (PDict ?d) =
      Inr (Some \<lparr>latitude = Fin 10, longitude = Fin 20, gps_method = PStr ''LOCATION''\<rparr>)"
    by code_simp
  from a 1 2 3 4 5 6 have "extract_gps_from_exifread (PDict ?d) =
      Inr (Some \<lparr>latitude = Fin 10, longitude = Fin 20, gps_method = PStr ''''\<rparr>)"
    by blast
  with r show False by simp
qed

subsection \<open>The inline helpers against the module-level ones\<close>

text \<open>
  Claim C9, as amended. The inline \<^verbatim>\<open>_normalize_key\<close> and \<^verbatim>\<open>_parse_rational\<close>
  agree with the module-level functions on every input. The inline \<^verbatim>\<open>_find_key\<close>
  agrees with the module-level one exactly on the inputs that are dictionaries or truthy
  (it lacks the test \<^verbatim>\<open>if not tags: return None\<close>). The inline \<^verbatim>\<open>_parse_dms\<close> and
  \<^verbatim>\<open>_dms_to_decimal\<close> return what the module-level ones return when there are three
  parts or more; with fewer parts both versions raise ValueError on the same value, with
  the messages \<^verbatim>\<open>DMS invalid: ...\<close> and \<^verbatim>\<open>DMS format invalid: ...\<close>.
\<close>

theorem inline_helpers_agree:
  "normalize_key_inline k = normalize_key k \<and>
   parse_rational_inline t = parse_rational t \<and>
   (find_key_inline tags cands = find_key tags cands \<longleftrightarrow> is_dict tags \<or> py_truthy tags) \<and>
   (3 \<le> length (dms_parts v) \<longrightarrow>
      parse_dms_inline v = parse_dms v \<and> dms_to_decimal_inline v r = dms_to_decimal v r) \<and>
   (length (dms_parts v) < 3 \<longrightarrow>
      parse_dms v = Inl (ValueError (''DMS format invalid: '' @ py_repr v)) \<and>
      parse_dms_inline v = Inl (ValueError (''DMS invalid: '' @ py_repr v)) \<and>
      dms_to_decimal v r = Inl (ValueError (''DMS format invalid: '' @ py_repr v)) \<and>
      dms_to_decimal_inline v r = Inl (ValueError (''DMS invalid: '' @ py_repr v)))"
proof (intro conjI impI)
  show "normalize_key_inline k = normalize_key k" by (simp add: normalize_key_inline_eq)
  show "parse_rational_inline t = parse_rational t" by (simp add: parse_rational_inline_eq)
  show "find_key_inline tags cands = find_key tags cands \<longleftrightarrow> is_dict tags \<or> py_truthy tags"
    by (rule find_key_inline_eq_iff)
next
  assume h: "3 \<le> length (dms_parts v)"
  then show p: "parse_dms_inline v = parse_dms v"
    by (simp add: parse_dms_inline_def parse_dms_def parse_rational_inline_eq)
  show "dms_to_decimal_inline v r = dms_to_decimal v r"
    by (simp add: dms_to_decimal_inline_def dms_to_decimal_def p)
next
  assume h: "length (dms_parts v) < 3"
  then show a: "parse_dms v = Inl (ValueError (''DMS format invalid: '' @ py_repr v))"
    by (simp add: parse_dms_def)
  from h show b: "parse_dms_inline v = Inl (ValueError (''DMS invalid: '' @ py_repr v))"
    by (simp add: parse_dms_inline_def)
  show "dms_to_decimal v r = Inl (ValueError (''DMS format invalid: '' @ py_repr v))"
    by (simp add: dms_to_decimal_def a)
  show "dms_to_decimal_inline v r = Inl (ValueError (''DMS invalid: '' @ py_repr v))"
    by (simp add: dms_to_decimal_inline_def b)
qed

theorem inline_helpers_agree_witness:
  "3 \<le> length (dms_parts (PStr ''48, 51, 0'')) \<and>
   parse_dms_inline (PStr ''48, 51, 0'') = parse_dms (PStr ''48, 51, 0'') \<and>
   dms_to_decimal_inline (PStr ''48, 51, 0'') (PStr ''S'') = dms_to_decimal (PStr ''48, 51, 0'') (PStr ''S'') \<and>
   length (dms_parts (PStr ''48, 51'')) < 3 \<and>
   parse_dms_inline (PStr ''48, 51'') = Inl (ValueError (''DMS invalid: '' @ py_repr (PStr ''48, 51'')))"
proof -
  have a: "dms_parts (PStr ''48, 51, 0'') = [''48'', ''51'', ''0'']" by code_simp
  have b: "dms_parts (PStr ''48, 51'') = [''48'', ''51'']" by code_simp
  from inline_helpers_agree[of _ _ _ _ "PStr ''48, 51, 0''" "PStr ''S''"]
       inline_helpers_agree[of _ _ _ _ "PStr ''48, 51''" "PStr ''S''"]
  show ?thesis by (simp add: a b)
qed

text \<open>
  Claim C9 as stated (equal on every input, failing in the same way) fails on
  \<^verbatim>\<open>None\<close> for \<^verbatim>\<open>_find_key\<close>, where the module-level function returns
  \<^verbatim>\<open>None\<close> and the inline one raises AttributeError, and on \<^verbatim>\<open>"48, 51"\<close> for
  \<^verbatim>\<open>_parse_dms\<close>, where the two exceptions carry different messages.
\<close>

theorem inline_helpers_counterexample:
  "find_key_inline PNone [''GPS GPSLatitude'', ''GPSLatitude''] \<noteq>
     find_key PNone [''GPS GPSLatitude'', ''GPSLatitude''] \<and>
   parse_dms_inline (PStr ''48, 51'') \<noteq> parse_dms (PStr ''48, 51'')"
proof
  show "find_key_inline PNone [''GPS GPSLatitude'', ''GPSLatitude''] \<noteq>
     find_key PNone [''GPS GPSLatitude'', ''GPSLatitude'']"
    by (simp add: find_key_inline_def find_key_def)
  have b: "dms_parts (PStr ''48, 51'') = [''48'', ''51'']" by code_simp
  show "parse_dms_inline (PStr ''48, 51'') \<noteq> parse_dms (PStr ''48, 51'')"
    by (simp add: parse_dms_inline_def parse_dms_def b)
qed

subsection \<open>No exception leaves the extractor\<close>

text \<open>
  Claim C2, as amended. For every input whose tag source has string keys only (the type
  \<^verbatim>\<open>Dict[str, Any]\<close> of the parameter), \<^verbatim>\<open>extract_gps_from_exifread\<close> raises no
  exception: it returns a coordinate or \<^verbatim>\<open>None\<close>. When no coordinate comes from a
  \<^verbatim>\<open>location\<close> entry and the tag source lacks one of the four required keys, the
  result is \<^verbatim>\<open>None\<close>; every input that is not a dictionary gives \<^verbatim>\<open>None\<close>, and so
  does the empty dictionary.
\<close>

theorem extract_never_raises:
  assumes "str_keyed_source data"
  shows "(\<exists>r. extract_gps_from_exifread data = Inr r) \<and>
         (from_location (location_entry data) = None \<and>
          (\<exists>t. tag_source data = PDict t \<and> lacks_gps_key t) \<longrightarrow>
            extract_gps_from_exifread data = Inr None) \<and>
         (\<not> is_dict data \<longrightarrow> extract_gps_from_exifread data = Inr None) \<and>
         extract_gps_from_exifread (PDict []) = Inr None"
proof (intro conjI impI)
  have tags: "\<exists>r. from_tags (tag_source data) = Inr r"
  proof (cases "is_dict (tag_source data)")
    case True
    then obtain t where t: "tag_source data = PDict t" by (cases "tag_source data") auto
    with assms have "str_keys t" by (simp add: str_keyed_source_def)
    from from_tags_total[OF this] t show ?thesis by simp
  next
    case False
    then show ?thesis by (simp add: from_tags_non_dict)
  qed
  then show "\<exists>r. extract_gps_from_exifread data = Inr r"
    by (auto simp: extract_gps_from_exifread_def Let_def split: option.splits)
next
  assume h: "from_location (location_entry data) = None \<and>
          (\<exists>t. tag_source data = PDict t \<and> lacks_gps_key t)"
  then obtain t where t: "tag_source data = PDict t" "lacks_gps_key t" by blast
  with assms have "str_keys t" by (simp add: str_keyed_source_def)
  from from_tags_lacking[OF this t(2)] t(1) h
  show "extract_gps_from_exifread data = Inr None"
    by (simp add: extract_gps_from_exifread_def Let_def)
next
  assume "\<not> is_dict data"
  then show "extract_gps_from_exifread data = Inr None"
    by (cases data)
       (simp_all add: extract_gps_from_exifread_def Let_def location_entry_def from_location_def
          tag_source_def from_tags_def)
next
  show "extract_gps_from_exifread (PDict []) = Inr None"
    by (simp add: extract_gps_from_exifread_def)
qed

theorem extract_never_raises_witness:
  "str_keyed_source (PDict [(PStr ''GPS GPSLatitude'', PStr ''48, 51, 179/100''),
                            (PStr ''GPS GPSLatitudeRef'', PStr ''N''),
                            (PStr ''GPS GPSLongitude'', PStr ''2, 21, 3/100'')]) \<and>
   extract_gps_from_exifread (PDict [(PStr ''GPS GPSLatitude'', PStr ''48, 51, 179/100''),
                            (PStr ''GPS GPSLatitudeRef'', PStr ''N''),
                            (PStr ''GPS GPSLongitude'', PStr ''2, 21, 3/100'')]) = Inr None"
proof -
  let ?t = "[(PStr ''GPS GPSLatitude'', PStr ''48, 51, 179/100''),
             (PStr ''GPS GPSLatitudeRef'', PStr ''N''),
             (PStr ''GPS GPSLongitude'', PStr ''2, 21, 3/100'')]"
  have s: "str_keyed_source (PDict ?t)" by code_simp
  have l: "from_location (location_entry (PDict ?t)) = None" by code_simp
  have ts: "tag_source (PDict ?t) = PDict ?t" by code_simp
  have k: "lacks_gps_key ?t" by code_simp
  from ts k have "\<exists>t. tag_source (PDict ?t) = PDict t \<and> lacks_gps_key t" by blast
  with extract_never_raises[OF s] l s show ?thesis by blast
qed

text \<open>
  Claim C2 as stated (no exception for any dictionary at all) fails: the keys are
  normalised with \<^verbatim>\<open>re.sub\<close> outside of any \<^verbatim>\<open>try\<close>, so \<^verbatim>\<open>{1: "x"}\<close> raises
  TypeError.
\<close>

theorem extract_never_raises_counterexample:
  "\<not> (\<forall>data. \<exists>r. extract_gps_from_exifread data = Inr r)"
proof
  assume "\<forall>data. \<exists>r. extract_gps_from_exifread data = Inr r"
  then obtain r where "extract_gps_from_exifread (PDict [(PInt 1, PStr ''x'')]) = Inr r" by blast
  moreover have "extract_gps_from_exifread (PDict [(PInt 1, PStr ''x'')]) = Inl TypeError"
    by code_simp
  ultimately show False by simp
qed

end
